theory Spec2Isabelle
  imports Main "HOL-Library.Sublist"
begin

section \<open>Data model\<close>

text \<open>
  The objects that \<open>ReportGenerator.refactored.js\<close> reads. A JavaScript string is a
  sequence of code units; here a \<^typ>\<open>char\<close> stands for one code unit below 256, so
  \<open>CHR 0xF3\<close> is the letter o with acute accent of the HTML heading.

  Numbers (the value of an item, and its id, which is a number in every use of the
  class) are integers. The source computes with doubles: its sums and its printed
  numbers are those of the integers only as long as every number involved is a safe
  integer, of magnitude at most \<open>2 ^ 53 - 1\<close>. Comparisons, copies and the choice of
  the items do not depend on that range; a statement about a printed number or about
  the value of a sum holds for the source within it, and assumes it.

  An item carries \<open>id\<close>, \<open>name\<close> and \<open>value\<close>; the field \<open>priority\<close> is \<open>None\<close> on
  an object that has no such property (reading it gives \<open>undefined\<close>) and \<open>Some b\<close>
  once the ADMIN branch has spread the item into a new object with the flag.
\<close>

record User =
  user_name :: string
  user_role :: string

record Item =
  item_id :: int
  item_name :: string
  item_value :: int
  priority :: "bool option"

record 'db ReportGenerator =
  db :: 'db

definition new_ReportGenerator :: "'db \<Rightarrow> 'db ReportGenerator" where
  "new_ReportGenerator database = \<lparr>db = database\<rparr>"

definition USER_VALUE_LIMIT :: int where
  "USER_VALUE_LIMIT = 500"

definition ADMIN_PRIORITY_LIMIT :: int where
  "ADMIN_PRIORITY_LIMIT = 1000"

section \<open>Strings of the host language\<close>

text \<open>Decimal digits of a natural number, most significant first.\<close>

fun digits :: "nat \<Rightarrow> string" where
  "digits n =
     (if n < 10 then [''0123456789'' ! n]
      else digits (n div 10) @ [''0123456789'' ! (n mod 10)])"

declare digits.simps [simp del]

text \<open>
  What a template literal inserts for a number that is a safe integer: a minus sign for
  a negative one, then the decimal digits. (Beyond that range the source rounds and,
  from \<open>10 ^ 21\<close> on, prints an exponent; what is stated below about the digits of a
  number is stated for safe integers.)
\<close>

definition Number_toString :: "int \<Rightarrow> string" where
  "Number_toString n = (if n < 0 then ''-'' @ digits (nat (- n)) else digits (nat n))"

text \<open>
  The white space and line terminators of \<open>String.prototype.trim\<close> among the code
  units below 256: tab, line feed, vertical tab, form feed, carriage return, space and
  the no-break space.
\<close>

definition isWhiteSpace :: "char \<Rightarrow> bool" where
  "isWhiteSpace c =
     (c = CHR 0x09 \<or> c = CHR 0x0A \<or> c = CHR 0x0B \<or> c = CHR 0x0C \<or> c = CHR 0x0D
      \<or> c = CHR 0x20 \<or> c = CHR 0xA0)"

definition trim :: "string \<Rightarrow> string" where
  "trim s = rev (dropWhile isWhiteSpace (rev (dropWhile isWhiteSpace s)))"

section \<open>The report generator\<close>

text \<open>
  \<open>_getProcessedItems\<close>: the ADMIN branch maps every item to a copy with the flag, the
  USER branch filters, any other role gives the empty array.
\<close>

definition getProcessedItems :: "'db ReportGenerator \<Rightarrow> User \<Rightarrow> Item list \<Rightarrow> Item list" where
  "getProcessedItems this user items =
     (if user_role user = ''ADMIN'' then
        map (\<lambda>item. item\<lparr>priority := Some (item_value item > ADMIN_PRIORITY_LIMIT)\<rparr>) items
      else if user_role user = ''USER'' then
        filter (\<lambda>item. item_value item \<le> USER_VALUE_LIMIT) items
      else [])"

text \<open>The body of the \<open>for\<close> loop of \<open>_generateCsvReport\<close>: one line is appended.\<close>

definition csv_step :: "User \<Rightarrow> string \<Rightarrow> Item \<Rightarrow> string" where
  "csv_step user report item =
     report @ Number_toString (item_id item) @ '','' @ item_name item @ '','' @
       Number_toString (item_value item) @ '','' @ user_name user @ ''\<newline>''"

definition generateCsvReport ::
  "'db ReportGenerator \<Rightarrow> User \<Rightarrow> Item list \<Rightarrow> int \<Rightarrow> string" where
  "generateCsvReport this user items total' =
     (let report = ''ID,NOME,VALOR,USUARIO\<newline>'';
          report = foldl (csv_step user) report items;
          report = report @ ''\<newline>Total,,\<newline>'';
          report = report @ Number_toString total' @ '',,\<newline>''
      in trim report)"

text \<open>The body of the \<open>for\<close> loop of \<open>_generateHtmlReport\<close>.\<close>

definition html_step :: "string \<Rightarrow> Item \<Rightarrow> string" where
  \<open>html_step report item =
     (let style = (if priority item = Some True then ''style="font-weight:bold;"'' else '''')
      in report @ ''<tr '' @ style @ ''><td>'' @ Number_toString (item_id item) @
           ''</td><td>'' @ item_name item @ ''</td><td>'' @
           Number_toString (item_value item) @ ''</td></tr>\<newline>'')\<close>

definition generateHtmlReport ::
  "'db ReportGenerator \<Rightarrow> User \<Rightarrow> Item list \<Rightarrow> int \<Rightarrow> string" where
  "generateHtmlReport this user items total' =
     (let report = ''<html><body>\<newline>'';
          report = report @ ''<h1>Relat'' @ [CHR 0xF3] @ ''rio</h1>\<newline>'';
          report = report @ ''<h2>Usu'' @ [CHR 0xE1] @ ''rio: '' @ user_name user @
                     ''</h2>\<newline>'';
          report = report @ ''<table>\<newline>'';
          report = report @ ''<tr><th>ID</th><th>Nome</th><th>Valor</th></tr>\<newline>'';
          report = foldl html_step report items;
          report = report @ ''</table>\<newline>'';
          report = report @ ''<h3>Total: '' @ Number_toString total' @ ''</h3>\<newline>'';
          report = report @ ''</body></html>\<newline>''
      in trim report)"

text \<open>
  \<open>generateReport\<close>: the items are processed and summed by \<open>reduce\<close> before the format
  is looked at. The sum is the left fold of the source, from 0; it is the number the
  source computes when the running totals are safe integers.
\<close>

definition generateReport ::
  "'db ReportGenerator \<Rightarrow> string \<Rightarrow> User \<Rightarrow> Item list \<Rightarrow> string" where
  "generateReport this reportType user items =
     (let processedItems = getProcessedItems this user items;
          total' = foldl (\<lambda>sum item. sum + item_value item) 0 processedItems
      in if reportType = ''CSV'' then generateCsvReport this user processedItems total'
         else if reportType = ''HTML'' then generateHtmlReport this user processedItems total'
         else '''')"

section \<open>Rows and the fields an item is given with\<close>

text \<open>
  The line that one turn of each loop appends, and the three fields that an item has
  before any flag is attached.
\<close>

definition csv_row :: "User \<Rightarrow> Item \<Rightarrow> string" where
  "csv_row user item = csv_step user [] item"

definition html_row :: "Item \<Rightarrow> string" where
  "html_row item = html_step [] item"

definition item_core :: "Item \<Rightarrow> int \<times> string \<times> int" where
  "item_core item = (item_id item, item_name item, item_value item)"

section \<open>The range of exact arithmetic\<close>

text \<open>
  \<open>Number.MAX_SAFE_INTEGER\<close> and \<open>Number.isSafeInteger\<close> of the host language. Two safe
  integers whose sum is safe are added without rounding, and a safe integer prints as
  its decimal digits, so \<open>Number_toString\<close> and the sum of \<open>generateReport\<close> are those
  of the source on items whose numbers are safe and whose running totals, the values
  that the accumulator of \<open>reduce\<close> takes one after the other, are all safe.
\<close>

definition MAX_SAFE_INTEGER :: int where
  "MAX_SAFE_INTEGER = 2 ^ 53 - 1"

definition isSafeInteger :: "int \<Rightarrow> bool" where
  "isSafeInteger n = (- MAX_SAFE_INTEGER \<le> n \<and> n \<le> MAX_SAFE_INTEGER)"

definition safe_item :: "Item \<Rightarrow> bool" where
  "safe_item item = (isSafeInteger (item_id item) \<and> isSafeInteger (item_value item))"

fun running_totals :: "int \<Rightarrow> Item list \<Rightarrow> int list" where
  "running_totals acc [] = [acc]"
| "running_totals acc (item # items) = acc # running_totals (acc + item_value item) items"

definition exact_total :: "Item list \<Rightarrow> bool" where
  "exact_total items = list_all isSafeInteger (running_totals 0 items)"

section \<open>Closed forms of the two renderings\<close>

lemma foldl_csv_step:
  "foldl (csv_step user) acc items = acc @ concat (map (csv_row user) items)"
  by (induction items arbitrary: acc) (simp_all add: csv_step_def csv_row_def)

lemma foldl_html_step:
  "foldl html_step acc items = acc @ concat (map html_row items)"
  by (induction items arbitrary: acc) (simp_all add: html_step_def html_row_def Let_def)

lemma foldl_sum_value:
  "foldl (\<lambda>sum item. sum + item_value item) acc items = acc + sum_list (map item_value items)"
  by (induction items arbitrary: acc) simp_all

lemma trim_final_newline:
  assumes "\<not> isWhiteSpace a" and "\<not> isWhiteSpace b"
  shows "trim (a # xs @ [b, CHR 0x0A]) = a # xs @ [b]"
  using assms by (simp add: trim_def isWhiteSpace_def)

lemma generateCsvReport_eq:
  "generateCsvReport this user items t =
     ''ID,NOME,VALOR,USUARIO\<newline>'' @ concat (map (csv_row user) items) @
     ''\<newline>Total,,\<newline>'' @ Number_toString t @ '',,''"
proof -
  let ?mid = "''D,NOME,VALOR,USUARIO\<newline>'' @ concat (map (csv_row user) items) @
     ''\<newline>Total,,\<newline>'' @ Number_toString t @ '',''"
  have "generateCsvReport this user items t = trim (CHR ''I'' # ?mid @ [CHR '','', CHR 0x0A])"
    by (simp add: generateCsvReport_def foldl_csv_step)
  also have "\<dots> = CHR ''I'' # ?mid @ [CHR '','']"
    by (rule trim_final_newline) (simp_all add: isWhiteSpace_def)
  finally show ?thesis by simp
qed

lemma generateHtmlReport_eq:
  "generateHtmlReport this user items t =
     ''<html><body>\<newline><h1>Relat'' @ [CHR 0xF3] @ ''rio</h1>\<newline><h2>Usu'' @ [CHR 0xE1] @
     ''rio: '' @ user_name user @
     ''</h2>\<newline><table>\<newline><tr><th>ID</th><th>Nome</th><th>Valor</th></tr>\<newline>'' @
     concat (map html_row items) @
     ''</table>\<newline><h3>Total: '' @ Number_toString t @ ''</h3>\<newline></body></html>''"
proof -
  let ?mid = "''html><body>\<newline><h1>Relat'' @ [CHR 0xF3] @ ''rio</h1>\<newline><h2>Usu'' @
     [CHR 0xE1] @ ''rio: '' @ user_name user @
     ''</h2>\<newline><table>\<newline><tr><th>ID</th><th>Nome</th><th>Valor</th></tr>\<newline>'' @
     concat (map html_row items) @
     ''</table>\<newline><h3>Total: '' @ Number_toString t @ ''</h3>\<newline></body></html''"
  have "generateHtmlReport this user items t = trim (CHR ''<'' # ?mid @ [CHR ''>'', CHR 0x0A])"
    by (simp add: generateHtmlReport_def foldl_html_step)
  also have "\<dots> = CHR ''<'' # ?mid @ [CHR ''>'']"
    by (rule trim_final_newline) (simp_all add: isWhiteSpace_def)
  finally show ?thesis by simp
qed

lemma generateReport_CSV:
  "generateReport this ''CSV'' user items =
     ''ID,NOME,VALOR,USUARIO\<newline>'' @
     concat (map (csv_row user) (getProcessedItems this user items)) @
     ''\<newline>Total,,\<newline>'' @
     Number_toString (sum_list (map item_value (getProcessedItems this user items))) @ '',,''"
  by (simp add: generateReport_def Let_def foldl_sum_value generateCsvReport_eq)

lemma generateReport_HTML:
  "generateReport this ''HTML'' user items =
     ''<html><body>\<newline><h1>Relat'' @ [CHR 0xF3] @ ''rio</h1>\<newline><h2>Usu'' @ [CHR 0xE1] @
     ''rio: '' @ user_name user @
     ''</h2>\<newline><table>\<newline><tr><th>ID</th><th>Nome</th><th>Valor</th></tr>\<newline>'' @
     concat (map html_row (getProcessedItems this user items)) @
     ''</table>\<newline><h3>Total: '' @
     Number_toString (sum_list (map item_value (getProcessedItems this user items))) @
     ''</h3>\<newline></body></html>''"
  by (simp add: generateReport_def Let_def foldl_sum_value generateHtmlReport_eq)

lemma Number_toString_0: "Number_toString 0 = ''0''"
  by (simp add: Number_toString_def digits.simps)

lemma getProcessedItems_USER:
  "user_role user = ''USER'' \<Longrightarrow>
     getProcessedItems this user items = filter (\<lambda>item. item_value item \<le> 500) items"
  by (simp add: getProcessedItems_def USER_VALUE_LIMIT_def)

lemma getProcessedItems_ADMIN:
  "user_role user = ''ADMIN'' \<Longrightarrow>
     getProcessedItems this user items =
       map (\<lambda>item. item\<lparr>priority := Some (1000 < item_value item)\<rparr>) items"
  by (simp add: getProcessedItems_def ADMIN_PRIORITY_LIMIT_def)

lemma getProcessedItems_other:
  "user_role user \<noteq> ''ADMIN'' \<Longrightarrow> user_role user \<noteq> ''USER'' \<Longrightarrow>
     getProcessedItems this user items = []"
  by (simp add: getProcessedItems_def)

lemma getProcessedItems_this:
  "getProcessedItems this user items = getProcessedItems this' user items"
  by (simp add: getProcessedItems_def)

text \<open>The flag of an item is read by neither the CSV line nor the filter.\<close>

lemma csv_row_priority_update: "csv_row user (x\<lparr>priority := p\<rparr>) = csv_row user x"
  by (simp add: csv_row_def csv_step_def)

lemma item_core_priority_update: "item_core (x\<lparr>priority := p\<rparr>) = item_core x"
  by (simp add: item_core_def)

lemma generateCsvReport_priority_update:
  "generateCsvReport this user (map (\<lambda>item. item\<lparr>priority := f item\<rparr>) items) t =
     generateCsvReport this user items t"
  by (simp add: generateCsvReport_eq o_def csv_row_priority_update)

lemma getProcessedItems_core_priority_update:
  "map item_core (getProcessedItems this user (map (\<lambda>item. item\<lparr>priority := f item\<rparr>) items)) =
     map item_core (getProcessedItems this user items)"
  by (simp add: getProcessedItems_def filter_map o_def item_core_priority_update)

text \<open>The result of \<open>reduce\<close> is the last of the running totals.\<close>

lemma foldl_in_running_totals:
  "foldl (\<lambda>sum item. sum + item_value item) acc items \<in> set (running_totals acc items)"
  by (induction items arbitrary: acc) simp_all

lemma exact_total_foldl:
  "exact_total items \<Longrightarrow> isSafeInteger (foldl (\<lambda>sum item. sum + item_value item) 0 items)"
  using foldl_in_running_totals [of 0 items] by (simp add: exact_total_def list_all_iff)

section \<open>Properties of the report generator\<close>

text \<open>
  C10. For every user, \<open>_getProcessedItems\<close> distributes over the concatenation of item
  lists, and it maps the empty list to the empty list whatever the role is.
\<close>

theorem C10_getProcessedItems_append:
  "getProcessedItems this user (xs @ ys) =
     getProcessedItems this user xs @ getProcessedItems this user ys
   \<and> getProcessedItems this user [] = []"
  by (simp add: getProcessedItems_def)

text \<open>
  C5. With a format other than \<open>CSV\<close> and \<open>HTML\<close>, \<open>generateReport\<close> returns the
  empty string for every user and every item list; the model has no failing branch
  because the source has none.
\<close>

theorem C5_unknown_format_empty:
  assumes "reportType \<noteq> ''CSV''" and "reportType \<noteq> ''HTML''"
  shows "generateReport this reportType user items = ''''"
  using assms by (simp add: generateReport_def Let_def)

theorem C5_unknown_format_empty_witness:
  "''XML'' \<noteq> ''CSV'' \<and> ''XML'' \<noteq> ''HTML'' \<and>
   generateReport (new_ReportGenerator (0::nat)) ''XML''
     \<lparr>user_name = ''Alice'', user_role = ''USER''\<rparr>
     [\<lparr>item_id = 1, item_name = ''A'', item_value = 100, priority = None\<rparr>] = ''''"
proof -
  have h1: "''XML'' \<noteq> ''CSV''" and h2: "''XML'' \<noteq> ''HTML''" by simp_all
  show ?thesis using h1 h2 C5_unknown_format_empty [OF h1 h2] by simp
qed

text \<open>
  C1. For a user of role USER the processed items are exactly the input items of value
  at most 500, in the order of the input and as they were given (no flag is attached).
  Hence an item of value above 500 is not among them, and the report, in every format,
  is the report of the kept items alone.
\<close>

theorem C1_user_items_at_most_limit:
  assumes "user_role user = ''USER''"
  shows "getProcessedItems this user items = filter (\<lambda>item. item_value item \<le> 500) items
    \<and> subseq (getProcessedItems this user items) items
    \<and> (\<forall>item \<in> set (getProcessedItems this user items).
          item \<in> set items \<and> item_value item \<le> 500)
    \<and> (\<forall>item \<in> set items.
          500 < item_value item \<longrightarrow> item \<notin> set (getProcessedItems this user items))
    \<and> generateReport this reportType user items =
          generateReport this reportType user (filter (\<lambda>item. item_value item \<le> 500) items)"
proof -
  let ?keep = "filter (\<lambda>item. item_value item \<le> 500) items"
  have P: "getProcessedItems this user items = ?keep"
    using assms by (rule getProcessedItems_USER)
  have idem: "getProcessedItems this user ?keep = ?keep"
    using assms by (simp add: getProcessedItems_USER)
  have sub: "subseq (getProcessedItems this user items) items"
    unfolding P by (rule subseq_filter_left)
  have mem: "\<forall>item \<in> set (getProcessedItems this user items).
      item \<in> set items \<and> item_value item \<le> 500"
    unfolding P by simp
  have out: "\<forall>item \<in> set items.
      500 < item_value item \<longrightarrow> item \<notin> set (getProcessedItems this user items)"
    unfolding P by simp
  have same: "generateReport this reportType user items =
      generateReport this reportType user ?keep"
    by (simp only: generateReport_def P idem)
  from P sub mem out same show ?thesis by (intro conjI)
qed

theorem C1_user_items_at_most_limit_witness:
  "user_role \<lparr>user_name = ''Alice'', user_role = ''USER''\<rparr> = ''USER'' \<and>
   getProcessedItems (new_ReportGenerator (0::nat))
     \<lparr>user_name = ''Alice'', user_role = ''USER''\<rparr>
     [\<lparr>item_id = 1, item_name = ''A'', item_value = 100, priority = None\<rparr>,
      \<lparr>item_id = 2, item_name = ''B'', item_value = 600, priority = None\<rparr>,
      \<lparr>item_id = 3, item_name = ''C'', item_value = 500, priority = None\<rparr>] =
     [\<lparr>item_id = 1, item_name = ''A'', item_value = 100, priority = None\<rparr>,
      \<lparr>item_id = 3, item_name = ''C'', item_value = 500, priority = None\<rparr>]"
proof -
  have h: "user_role \<lparr>user_name = ''Alice'', user_role = ''USER''\<rparr> = ''USER''"
    by simp
  show ?thesis
    using h C1_user_items_at_most_limit [OF h, of "new_ReportGenerator (0::nat)"
      "[\<lparr>item_id = 1, item_name = ''A'', item_value = 100, priority = None\<rparr>,
        \<lparr>item_id = 2, item_name = ''B'', item_value = 600, priority = None\<rparr>,
        \<lparr>item_id = 3, item_name = ''C'', item_value = 500, priority = None\<rparr>]" "''CSV''"]
    by simp
qed

text \<open>
  C2. For a user of role ADMIN the processed items are as many as the input items and
  stand in the same order; each keeps the id, the name and the value of the input item
  at its position, and its flag is true exactly when that value is above 1000 and false
  otherwise.
\<close>

theorem C2_admin_all_items_flagged:
  assumes "user_role user = ''ADMIN''"
  shows "length (getProcessedItems this user items) = length items
    \<and> (\<forall>k < length items.
          item_id (getProcessedItems this user items ! k) = item_id (items ! k)
        \<and> item_name (getProcessedItems this user items ! k) = item_name (items ! k)
        \<and> item_value (getProcessedItems this user items ! k) = item_value (items ! k)
        \<and> priority (getProcessedItems this user items ! k) =
            Some (1000 < item_value (items ! k)))
    \<and> getProcessedItems this user items =
          map (\<lambda>item. item\<lparr>priority := Some (1000 < item_value item)\<rparr>) items"
  using assms by (simp add: getProcessedItems_ADMIN)

theorem C2_admin_all_items_flagged_witness:
  "user_role \<lparr>user_name = ''Bob'', user_role = ''ADMIN''\<rparr> = ''ADMIN'' \<and>
   getProcessedItems (new_ReportGenerator (0::nat))
     \<lparr>user_name = ''Bob'', user_role = ''ADMIN''\<rparr>
     [\<lparr>item_id = 1, item_name = ''X'', item_value = 1500, priority = None\<rparr>,
      \<lparr>item_id = 2, item_name = ''Y'', item_value = 1000, priority = None\<rparr>] =
     [\<lparr>item_id = 1, item_name = ''X'', item_value = 1500, priority = Some True\<rparr>,
      \<lparr>item_id = 2, item_name = ''Y'', item_value = 1000, priority = Some False\<rparr>]"
proof -
  have h: "user_role \<lparr>user_name = ''Bob'', user_role = ''ADMIN''\<rparr> = ''ADMIN''"
    by simp
  show ?thesis
    using h C2_admin_all_items_flagged [OF h, of "new_ReportGenerator (0::nat)"
      "[\<lparr>item_id = 1, item_name = ''X'', item_value = 1500, priority = None\<rparr>,
        \<lparr>item_id = 2, item_name = ''Y'', item_value = 1000, priority = None\<rparr>]"]
    by simp
qed

text \<open>
  C3. On items whose numbers are safe integers and whose running totals over the
  processed items are safe, the total that \<open>reduce\<close> computes is the sum of the values
  of the processed items, not of the input items, and is itself a safe integer; the CSV
  and the HTML rendering of the same user and items print this one number, and they
  print 0 when no item is processed.
\<close>

theorem C3_total_over_processed_items:
  assumes "list_all safe_item items"
    and "exact_total (getProcessedItems this user items)"
  shows "foldl (\<lambda>sum item. sum + item_value item) 0 (getProcessedItems this user items) =
     sum_list (map item_value (getProcessedItems this user items))
   \<and> isSafeInteger (sum_list (map item_value (getProcessedItems this user items)))
   \<and> generateReport this ''CSV'' user items =
       ''ID,NOME,VALOR,USUARIO\<newline>'' @
       concat (map (csv_row user) (getProcessedItems this user items)) @
       ''\<newline>Total,,\<newline>'' @
       Number_toString (sum_list (map item_value (getProcessedItems this user items))) @ '',,''
   \<and> generateReport this ''HTML'' user items =
       ''<html><body>\<newline><h1>Relat'' @ [CHR 0xF3] @ ''rio</h1>\<newline><h2>Usu'' @
       [CHR 0xE1] @ ''rio: '' @ user_name user @
       ''</h2>\<newline><table>\<newline><tr><th>ID</th><th>Nome</th><th>Valor</th></tr>\<newline>'' @
       concat (map html_row (getProcessedItems this user items)) @
       ''</table>\<newline><h3>Total: '' @
       Number_toString (sum_list (map item_value (getProcessedItems this user items))) @
       ''</h3>\<newline></body></html>''
   \<and> (getProcessedItems this user items = [] \<longrightarrow>
        generateReport this ''CSV'' user items =
          ''ID,NOME,VALOR,USUARIO\<newline>\<newline>Total,,\<newline>0,,''
      \<and> generateReport this ''HTML'' user items =
          ''<html><body>\<newline><h1>Relat'' @ [CHR 0xF3] @ ''rio</h1>\<newline><h2>Usu'' @
          [CHR 0xE1] @ ''rio: '' @ user_name user @
          ''</h2>\<newline><table>\<newline><tr><th>ID</th><th>Nome</th><th>Valor</th></tr>\<newline>'' @
          ''</table>\<newline><h3>Total: 0</h3>\<newline></body></html>'')"
proof (intro conjI impI)
  show total: "foldl (\<lambda>sum item. sum + item_value item) 0 (getProcessedItems this user items) =
     sum_list (map item_value (getProcessedItems this user items))"
    by (simp add: foldl_sum_value)
  from exact_total_foldl [OF assms(2)]
  show "isSafeInteger (sum_list (map item_value (getProcessedItems this user items)))"
    by (simp only: total)
next
  show "generateReport this ''CSV'' user items =
       ''ID,NOME,VALOR,USUARIO\<newline>'' @
       concat (map (csv_row user) (getProcessedItems this user items)) @
       ''\<newline>Total,,\<newline>'' @
       Number_toString (sum_list (map item_value (getProcessedItems this user items))) @ '',,''"
    by (rule generateReport_CSV)
next
  show "generateReport this ''HTML'' user items =
       ''<html><body>\<newline><h1>Relat'' @ [CHR 0xF3] @ ''rio</h1>\<newline><h2>Usu'' @
       [CHR 0xE1] @ ''rio: '' @ user_name user @
       ''</h2>\<newline><table>\<newline><tr><th>ID</th><th>Nome</th><th>Valor</th></tr>\<newline>'' @
       concat (map html_row (getProcessedItems this user items)) @
       ''</table>\<newline><h3>Total: '' @
       Number_toString (sum_list (map item_value (getProcessedItems this user items))) @
       ''</h3>\<newline></body></html>''"
    by (rule generateReport_HTML)
next
  assume "getProcessedItems this user items = []"
  then show "generateReport this ''CSV'' user items =
          ''ID,NOME,VALOR,USUARIO\<newline>\<newline>Total,,\<newline>0,,''"
    by (simp add: generateReport_CSV Number_toString_0)
next
  assume "getProcessedItems this user items = []"
  then show "generateReport this ''HTML'' user items =
          ''<html><body>\<newline><h1>Relat'' @ [CHR 0xF3] @ ''rio</h1>\<newline><h2>Usu'' @
          [CHR 0xE1] @ ''rio: '' @ user_name user @
          ''</h2>\<newline><table>\<newline><tr><th>ID</th><th>Nome</th><th>Valor</th></tr>\<newline>'' @
          ''</table>\<newline><h3>Total: 0</h3>\<newline></body></html>''"
    by (simp add: generateReport_HTML Number_toString_0)
qed

theorem C3_total_over_processed_items_witness:
  "list_all safe_item
     [\<lparr>item_id = 1, item_name = ''A'', item_value = 100, priority = None\<rparr>,
      \<lparr>item_id = 2, item_name = ''B'', item_value = 600, priority = None\<rparr>,
      \<lparr>item_id = 3, item_name = ''C'', item_value = 500, priority = None\<rparr>]
   \<and> exact_total (getProcessedItems (new_ReportGenerator (0::nat))
        \<lparr>user_name = ''Alice'', user_role = ''USER''\<rparr>
        [\<lparr>item_id = 1, item_name = ''A'', item_value = 100, priority = None\<rparr>,
         \<lparr>item_id = 2, item_name = ''B'', item_value = 600, priority = None\<rparr>,
         \<lparr>item_id = 3, item_name = ''C'', item_value = 500, priority = None\<rparr>])
   \<and> generateReport (new_ReportGenerator (0::nat)) ''CSV''
        \<lparr>user_name = ''Alice'', user_role = ''USER''\<rparr>
        [\<lparr>item_id = 1, item_name = ''A'', item_value = 100, priority = None\<rparr>,
         \<lparr>item_id = 2, item_name = ''B'', item_value = 600, priority = None\<rparr>,
         \<lparr>item_id = 3, item_name = ''C'', item_value = 500, priority = None\<rparr>] =
       ''ID,NOME,VALOR,USUARIO\<newline>1,A,100,Alice\<newline>3,C,500,Alice\<newline>\<newline>Total,,\<newline>600,,''
   \<and> list_all safe_item
        [\<lparr>item_id = 2, item_name = ''B'', item_value = 600, priority = None\<rparr>]
   \<and> exact_total (getProcessedItems (new_ReportGenerator (0::nat))
        \<lparr>user_name = ''Alice'', user_role = ''USER''\<rparr>
        [\<lparr>item_id = 2, item_name = ''B'', item_value = 600, priority = None\<rparr>])
   \<and> getProcessedItems (new_ReportGenerator (0::nat))
        \<lparr>user_name = ''Alice'', user_role = ''USER''\<rparr>
        [\<lparr>item_id = 2, item_name = ''B'', item_value = 600, priority = None\<rparr>] = []
   \<and> generateReport (new_ReportGenerator (0::nat)) ''CSV''
        \<lparr>user_name = ''Alice'', user_role = ''USER''\<rparr>
        [\<lparr>item_id = 2, item_name = ''B'', item_value = 600, priority = None\<rparr>] =
       ''ID,NOME,VALOR,USUARIO\<newline>\<newline>Total,,\<newline>0,,''"
proof -
  let ?gen = "new_ReportGenerator (0::nat)"
  let ?alice = "\<lparr>user_name = ''Alice'', user_role = ''USER''\<rparr>"
  let ?three = "[\<lparr>item_id = 1, item_name = ''A'', item_value = 100, priority = None\<rparr>,
      \<lparr>item_id = 2, item_name = ''B'', item_value = 600, priority = None\<rparr>,
      \<lparr>item_id = 3, item_name = ''C'', item_value = 500, priority = None\<rparr>]"
  let ?one = "[\<lparr>item_id = 2, item_name = ''B'', item_value = 600, priority = None\<rparr>]"
  have kept: "getProcessedItems ?gen ?alice ?three =
      [\<lparr>item_id = 1, item_name = ''A'', item_value = 100, priority = None\<rparr>,
       \<lparr>item_id = 3, item_name = ''C'', item_value = 500, priority = None\<rparr>]"
    by (simp add: getProcessedItems_def USER_VALUE_LIMIT_def)
  have none: "getProcessedItems ?gen ?alice ?one = []"
    by (simp add: getProcessedItems_def USER_VALUE_LIMIT_def)
  have a1: "list_all safe_item ?three"
    by (simp add: safe_item_def isSafeInteger_def MAX_SAFE_INTEGER_def)
  have a2: "exact_total (getProcessedItems ?gen ?alice ?three)"
    by (simp add: kept exact_total_def isSafeInteger_def MAX_SAFE_INTEGER_def)
  have b1: "list_all safe_item ?one"
    by (simp add: safe_item_def isSafeInteger_def MAX_SAFE_INTEGER_def)
  have b2: "exact_total (getProcessedItems ?gen ?alice ?one)"
    by (simp add: none exact_total_def isSafeInteger_def MAX_SAFE_INTEGER_def)
  have csv: "generateReport ?gen ''CSV'' ?alice ?three =
      ''ID,NOME,VALOR,USUARIO\<newline>1,A,100,Alice\<newline>3,C,500,Alice\<newline>\<newline>Total,,\<newline>600,,''"
    using C3_total_over_processed_items [OF a1 a2]
    by (simp add: kept csv_row_def csv_step_def Number_toString_def digits.simps)
  have empty: "generateReport ?gen ''CSV'' ?alice ?one =
      ''ID,NOME,VALOR,USUARIO\<newline>\<newline>Total,,\<newline>0,,''"
    using none C3_total_over_processed_items [OF b1 b2] by blast
  from a1 a2 csv b1 b2 none empty show ?thesis by (intro conjI)
qed

text \<open>
  C4. For a user whose role is neither ADMIN nor USER no item is processed and the total
  is 0: the CSV report is the header line, the blank line and the two footer lines
  \<open>Total,,\<close> and \<open>0,,\<close>, with no item line, and in the HTML report the closing tag of the
  table follows the header row of the table at once.
\<close>

theorem C4_unknown_role_empty_report:
  assumes "user_role user \<noteq> ''ADMIN''" and "user_role user \<noteq> ''USER''"
  shows "getProcessedItems this user items = []
    \<and> foldl (\<lambda>sum item. sum + item_value item) 0 (getProcessedItems this user items) = 0
    \<and> generateReport this ''CSV'' user items =
          ''ID,NOME,VALOR,USUARIO\<newline>\<newline>Total,,\<newline>0,,''
    \<and> generateReport this ''HTML'' user items =
          ''<html><body>\<newline><h1>Relat'' @ [CHR 0xF3] @ ''rio</h1>\<newline><h2>Usu'' @
          [CHR 0xE1] @ ''rio: '' @ user_name user @
          ''</h2>\<newline><table>\<newline><tr><th>ID</th><th>Nome</th><th>Valor</th></tr>\<newline>'' @
          ''</table>\<newline><h3>Total: 0</h3>\<newline></body></html>''"
proof -
  have P: "getProcessedItems this user items = []"
    using assms by (rule getProcessedItems_other)
  show ?thesis
    by (simp add: P generateReport_CSV generateReport_HTML Number_toString_0)
qed

theorem C4_unknown_role_empty_report_witness:
  "user_role \<lparr>user_name = ''Eve'', user_role = ''GUEST''\<rparr> \<noteq> ''ADMIN'' \<and>
   user_role \<lparr>user_name = ''Eve'', user_role = ''GUEST''\<rparr> \<noteq> ''USER'' \<and>
   generateReport (new_ReportGenerator (0::nat)) ''CSV''
     \<lparr>user_name = ''Eve'', user_role = ''GUEST''\<rparr>
     [\<lparr>item_id = 1, item_name = ''A'', item_value = 100, priority = None\<rparr>] =
     ''ID,NOME,VALOR,USUARIO\<newline>\<newline>Total,,\<newline>0,,''"
proof -
  have h1: "user_role \<lparr>user_name = ''Eve'', user_role = ''GUEST''\<rparr> \<noteq> ''ADMIN''"
    and h2: "user_role \<lparr>user_name = ''Eve'', user_role = ''GUEST''\<rparr> \<noteq> ''USER''"
    by simp_all
  show ?thesis
    using h1 h2 C4_unknown_role_empty_report [OF h1 h2, of "new_ReportGenerator (0::nat)"
      "[\<lparr>item_id = 1, item_name = ''A'', item_value = 100, priority = None\<rparr>]"]
    by blast
qed

text \<open>
  C6. The scenario of Alice, a USER, with item A of value 100 and item B of value 600 in
  CSV: the report is the header, the line of item A, the blank line and the footer with
  total 100; item B is left out and the final line feed is trimmed.
\<close>

theorem C6_alice_csv_scenario:
  "generateReport (new_ReportGenerator database) ''CSV''
     \<lparr>user_name = ''Alice'', user_role = ''USER''\<rparr>
     [\<lparr>item_id = 1, item_name = ''A'', item_value = 100, priority = None\<rparr>,
      \<lparr>item_id = 2, item_name = ''B'', item_value = 600, priority = None\<rparr>] =
   ''ID,NOME,VALOR,USUARIO\<newline>1,A,100,Alice\<newline>\<newline>Total,,\<newline>100,,''"
  by (simp add: generateReport_CSV getProcessedItems_def USER_VALUE_LIMIT_def csv_row_def
      csv_step_def Number_toString_def digits.simps)

text \<open>
  The whole report of the scenario of Bob, an ADMIN, with the one item X of value 1500
  in HTML.
\<close>

lemma bob_html_output:
  \<open>generateReport (new_ReportGenerator database) ''HTML''
     \<lparr>user_name = ''Bob'', user_role = ''ADMIN''\<rparr>
     [\<lparr>item_id = 1, item_name = ''X'', item_value = 1500, priority = None\<rparr>] =
   ''<html><body>\<newline><h1>Relat'' @ [CHR 0xF3] @ ''rio</h1>\<newline><h2>Usu'' @ [CHR 0xE1] @
   ''rio: Bob</h2>\<newline><table>\<newline><tr><th>ID</th><th>Nome</th><th>Valor</th></tr>\<newline>'' @
   ''<tr style="font-weight:bold;"><td>1</td><td>X</td><td>1500</td></tr>'' @
   ''\<newline></table>\<newline>'' @ ''<h3>Total: 1500</h3>'' @ ''\<newline></body></html>''\<close>
  by (simp add: generateReport_HTML getProcessedItems_def ADMIN_PRIORITY_LIMIT_def html_row_def
      html_step_def Number_toString_def digits.simps)

text \<open>
  C7. In the scenario of Bob the report contains the table row of item X with the bold
  style attribute, and it contains the heading of the total 1500.
\<close>

theorem C7_bob_html_scenario:
  \<open>sublist ''<tr style="font-weight:bold;"><td>1</td><td>X</td><td>1500</td></tr>''
     (generateReport (new_ReportGenerator database) ''HTML''
        \<lparr>user_name = ''Bob'', user_role = ''ADMIN''\<rparr>
        [\<lparr>item_id = 1, item_name = ''X'', item_value = 1500, priority = None\<rparr>])
   \<and> sublist ''<h3>Total: 1500</h3>''
     (generateReport (new_ReportGenerator database) ''HTML''
        \<lparr>user_name = ''Bob'', user_role = ''ADMIN''\<rparr>
        [\<lparr>item_id = 1, item_name = ''X'', item_value = 1500, priority = None\<rparr>])\<close>
proof
  show \<open>sublist ''<tr style="font-weight:bold;"><td>1</td><td>X</td><td>1500</td></tr>''
     (generateReport (new_ReportGenerator database) ''HTML''
        \<lparr>user_name = ''Bob'', user_role = ''ADMIN''\<rparr>
        [\<lparr>item_id = 1, item_name = ''X'', item_value = 1500, priority = None\<rparr>])\<close>
    unfolding bob_html_output sublist_def
    by (rule exI [of _ "''<html><body>\<newline><h1>Relat'' @ [CHR 0xF3] @ ''rio</h1>\<newline><h2>Usu'' @
        [CHR 0xE1] @
        ''rio: Bob</h2>\<newline><table>\<newline><tr><th>ID</th><th>Nome</th><th>Valor</th></tr>\<newline>''"],
        rule exI [of _ "''\<newline></table>\<newline><h3>Total: 1500</h3>\<newline></body></html>''"]) simp
next
  show \<open>sublist ''<h3>Total: 1500</h3>''
     (generateReport (new_ReportGenerator database) ''HTML''
        \<lparr>user_name = ''Bob'', user_role = ''ADMIN''\<rparr>
        [\<lparr>item_id = 1, item_name = ''X'', item_value = 1500, priority = None\<rparr>])\<close>
    unfolding bob_html_output sublist_def
    by (rule exI [of _ "''<html><body>\<newline><h1>Relat'' @ [CHR 0xF3] @ ''rio</h1>\<newline><h2>Usu'' @
        [CHR 0xE1] @
        ''rio: Bob</h2>\<newline><table>\<newline><tr><th>ID</th><th>Nome</th><th>Valor</th></tr>\<newline>'' @
        ''<tr style='' @ [CHR 0x22] @ ''font-weight:bold;'' @ [CHR 0x22] @
        ''><td>1</td><td>X</td><td>1500</td></tr>'' @ ''\<newline></table>\<newline>''"],
        rule exI [of _ "''\<newline></body></html>''"]) simp
qed

text \<open>
  C9. \<open>generateReport\<close> is a function of the format, the user and the items alone: the
  object it is called on, and so the database the constructor stored in it, has no
  influence on the string returned, even for databases of different types.
\<close>

theorem C9_output_independent_of_database:
  "generateReport (new_ReportGenerator (d1 :: 'a)) reportType user items =
     generateReport (new_ReportGenerator (d2 :: 'b)) reportType user items
   \<and> generateReport (this1 :: 'a ReportGenerator) reportType user items =
     generateReport (this2 :: 'b ReportGenerator) reportType user items"
  by (simp add: generateReport_def generateCsvReport_eq generateHtmlReport_eq
      getProcessedItems_def)

text \<open>
  C8. The flag is attached in the ADMIN branch only: under any other role the processed
  items are input items as they were given. For ADMIN the processed items are the input
  items field by field, the total is the total of the input items, and the CSV report is
  the CSV report of the input items themselves. Whatever flags the items carry, the CSV
  rendering and the choice of the processed items are the same; in an HTML row the flag
  decides the style attribute and nothing else.
\<close>

theorem C8_priority_affects_styling_only:
  \<open>(user_role user \<noteq> ''ADMIN'' \<longrightarrow>
      (\<forall>item \<in> set (getProcessedItems this user items). item \<in> set items))
   \<and> (user_role user = ''ADMIN'' \<longrightarrow>
        map item_core (getProcessedItems this user items) = map item_core items
      \<and> foldl (\<lambda>sum item. sum + item_value item) 0 (getProcessedItems this user items) =
          foldl (\<lambda>sum item. sum + item_value item) 0 items
      \<and> generateReport this ''CSV'' user items =
          generateCsvReport this user items
            (foldl (\<lambda>sum item. sum + item_value item) 0 items))
   \<and> generateCsvReport this user (map (\<lambda>item. item\<lparr>priority := f item\<rparr>) items) t =
       generateCsvReport this user items t
   \<and> map item_core
         (getProcessedItems this user (map (\<lambda>item. item\<lparr>priority := f item\<rparr>) items)) =
       map item_core (getProcessedItems this user items)
   \<and> (\<exists>cells. \<forall>p. html_row (x\<lparr>priority := p\<rparr>) =
         ''<tr '' @ (if p = Some True then ''style="font-weight:bold;"'' else '''') @ cells)\<close>
proof (intro conjI impI)
  assume "user_role user \<noteq> ''ADMIN''"
  then show "\<forall>item \<in> set (getProcessedItems this user items). item \<in> set items"
    by (simp add: getProcessedItems_def)
next
  assume "user_role user = ''ADMIN''"
  then show "map item_core (getProcessedItems this user items) = map item_core items"
    by (simp add: getProcessedItems_ADMIN o_def item_core_priority_update)
next
  assume "user_role user = ''ADMIN''"
  then show "foldl (\<lambda>sum item. sum + item_value item) 0 (getProcessedItems this user items) =
      foldl (\<lambda>sum item. sum + item_value item) 0 items"
    by (simp add: getProcessedItems_ADMIN foldl_sum_value o_def)
next
  assume admin: "user_role user = ''ADMIN''"
  have "generateReport this ''CSV'' user items =
      generateCsvReport this user
        (map (\<lambda>item. item\<lparr>priority := Some (1000 < item_value item)\<rparr>) items)
        (foldl (\<lambda>sum item. sum + item_value item) 0 items)"
    using admin
    by (simp add: generateReport_def Let_def getProcessedItems_ADMIN foldl_sum_value o_def)
  then show "generateReport this ''CSV'' user items =
      generateCsvReport this user items (foldl (\<lambda>sum item. sum + item_value item) 0 items)"
    by (simp only: generateCsvReport_priority_update)
next
  show "generateCsvReport this user (map (\<lambda>item. item\<lparr>priority := f item\<rparr>) items) t =
      generateCsvReport this user items t"
    by (rule generateCsvReport_priority_update)
next
  show "map item_core
      (getProcessedItems this user (map (\<lambda>item. item\<lparr>priority := f item\<rparr>) items)) =
      map item_core (getProcessedItems this user items)"
    by (rule getProcessedItems_core_priority_update)
next
  show \<open>\<exists>cells. \<forall>p. html_row (x\<lparr>priority := p\<rparr>) =
      ''<tr '' @ (if p = Some True then ''style="font-weight:bold;"'' else '''') @ cells\<close>
    by (rule exI [of _ "''><td>'' @ Number_toString (item_id x) @ ''</td><td>'' @
          item_name x @ ''</td><td>'' @ Number_toString (item_value x) @
          ''</td></tr>\<newline>''"])
       (simp add: html_row_def html_step_def)
qed

theorem C8_priority_affects_styling_only_witness:
  "user_role \<lparr>user_name = ''Alice'', user_role = ''USER''\<rparr> \<noteq> ''ADMIN''
   \<and> user_role \<lparr>user_name = ''Bob'', user_role = ''ADMIN''\<rparr> = ''ADMIN''
   \<and> set (getProcessedItems (new_ReportGenerator (0::nat))
          \<lparr>user_name = ''Alice'', user_role = ''USER''\<rparr>
          [\<lparr>item_id = 1, item_name = ''A'', item_value = 100, priority = None\<rparr>])
        \<subseteq> {\<lparr>item_id = 1, item_name = ''A'', item_value = 100, priority = None\<rparr>}
   \<and> foldl (\<lambda>sum item. sum + item_value item) 0
        (getProcessedItems (new_ReportGenerator (0::nat))
          \<lparr>user_name = ''Bob'', user_role = ''ADMIN''\<rparr>
          [\<lparr>item_id = 1, item_name = ''X'', item_value = 1500, priority = None\<rparr>,
           \<lparr>item_id = 2, item_name = ''Y'', item_value = 7, priority = None\<rparr>]) = 1507"
proof -
  have h1: "user_role \<lparr>user_name = ''Alice'', user_role = ''USER''\<rparr> \<noteq> ''ADMIN''"
    and h2: "user_role \<lparr>user_name = ''Bob'', user_role = ''ADMIN''\<rparr> = ''ADMIN''"
    by simp_all
  have kept: "set (getProcessedItems (new_ReportGenerator (0::nat))
          \<lparr>user_name = ''Alice'', user_role = ''USER''\<rparr>
          [\<lparr>item_id = 1, item_name = ''A'', item_value = 100, priority = None\<rparr>])
        \<subseteq> {\<lparr>item_id = 1, item_name = ''A'', item_value = 100, priority = None\<rparr>}"
    using h1
      C8_priority_affects_styling_only [of "\<lparr>user_name = ''Alice'', user_role = ''USER''\<rparr>"
        "new_ReportGenerator (0::nat)"
        "[\<lparr>item_id = 1, item_name = ''A'', item_value = 100, priority = None\<rparr>]"]
    by auto
  have total: "foldl (\<lambda>sum item. sum + item_value item) 0
        (getProcessedItems (new_ReportGenerator (0::nat))
          \<lparr>user_name = ''Bob'', user_role = ''ADMIN''\<rparr>
          [\<lparr>item_id = 1, item_name = ''X'', item_value = 1500, priority = None\<rparr>,
           \<lparr>item_id = 2, item_name = ''Y'', item_value = 7, priority = None\<rparr>]) = 1507"
    using h2
      C8_priority_affects_styling_only [of "\<lparr>user_name = ''Bob'', user_role = ''ADMIN''\<rparr>"
        "new_ReportGenerator (0::nat)"
        "[\<lparr>item_id = 1, item_name = ''X'', item_value = 1500, priority = None\<rparr>,
          \<lparr>item_id = 2, item_name = ''Y'', item_value = 7, priority = None\<rparr>]"]
    by simp
  from h1 h2 kept total show ?thesis by (intro conjI)
qed

end
